theory Spec2Isabelle
  imports Main "HOL-Library.Word"
begin

section \<open>The MEI client of heci\_example.c\<close>

text \<open>
  The program talks to the Intel MEI driver through the system calls \<open>open\<close>,
  \<open>geteuid\<close>, \<open>ioctl\<close>, \<open>write\<close>, \<open>select\<close>, \<open>read\<close>, \<open>close\<close> and
  \<open>exit\<close>, and reports on \<open>stderr\<close>. The embedding keeps the C functions as they are
  written and makes the two things they do beyond returning a value explicit:
  \<^item> what the operating system answers is read from a \<open>kernel\<close> record, one field per
    system call, so that every theorem holds for every answer the driver can give;
  \<^item> every system call and every \<open>fprintf\<close> is appended to a trace (an \<open>event list\<close>,
    oldest first), which is how "the handle is closed exactly once" and "no I/O is
    attempted" are stated.
  \<open>int\<close> and \<open>ssize_t\<close> values (descriptors, byte counts, \<open>errno\<close>, return codes) are
  HOL integers: the code only compares them with \<open>0\<close> and \<open>-1\<close> and negates \<open>errno\<close>.
  \<open>unsigned long\<close> is a 64-bit word (LP64, as on x86-64 Linux), \<open>unsigned int\<close> and
  \<open>__u32\<close> a 32-bit word, \<open>unsigned char\<close> and \<open>__u8\<close> an 8-bit word.
\<close>

subsection \<open>Data\<close>

type_synonym byte = "8 word"

text \<open>\<open>uuid_le\<close> of the Linux header linux/uuid.h: sixteen bytes.\<close>

type_synonym uuid_le = "byte list"

text \<open>\<open>struct mei\<close>, lines 52-59.\<close>

record mei =
  guid :: uuid_le
  initialized :: bool
  verbose :: bool
  buf_size :: "32 word"
  prot_ver :: "8 word"
  fd :: int

text \<open>\<open>struct mei_client\<close> of the Linux header linux/mei.h: what a successful
  \<open>IOCTL_MEI_CONNECT_CLIENT\<close> leaves in \<open>data.out_client_properties\<close>.\<close>

record mei_client =
  max_msg_length :: "32 word"
  protocol_version :: "8 word"

text \<open>\<open>struct timeval\<close>: both fields are \<open>long\<close>, kept as the 64 bits stored.\<close>

record timeval =
  tv_sec :: "64 word"
  tv_usec :: "64 word"

text \<open>\<open>struct mkhi_host_if\<close>, lines 92-96. Its own \<open>initialized\<close> field is named
  \<open>mkhi_initialized\<close> here, \<open>initialized\<close> being the field of \<open>struct mei\<close>.\<close>

record mkhi_host_if =
  mei_cl :: mei
  send_timeout :: "64 word"
  mkhi_initialized :: bool

subsection \<open>The environment: system calls and their trace\<close>

text \<open>An argument of \<open>fprintf\<close>, kept as the value passed (not as the text printed).\<close>

datatype farg =
  ArgInt int
| ArgU32 "32 word"
| ArgU8 "8 word"
| ArgStrerror int

datatype event =
  SysOpen string
| SysGeteuid
| SysIoctl int uuid_le
| SysWrite int "byte list" int
| SysSelect int int timeval
| SysRead int int
| SysClose int
| Fprintf string "farg list"

text \<open>
  The answers of the operating system.
  \<^item> \<open>k_open\<close>: the result of \<open>open("/dev/mei0", O_RDWR)\<close>;
  \<^item> \<open>k_geteuid\<close>: the effective user id;
  \<^item> \<open>k_ioctl fd uuid\<close>: the result of the connect request and the client properties
    found in \<open>data\<close> afterwards;
  \<^item> \<open>k_write fd buffer len\<close>: the result of \<open>write\<close> and the value of \<open>errno\<close> after it;
  \<^item> \<open>k_select fd tv\<close>: the result of \<open>select(fd + 1, &set, NULL, NULL, &tv)\<close> with
    \<open>set = {fd}\<close>, and whether \<open>fd\<close> is still in \<open>set\<close> afterwards; the set is the
    second argument, so this is the wait for \<open>fd\<close> to become readable;
  \<^item> \<open>k_writable fd tv\<close>: whether \<open>fd\<close> is writable before \<open>tv\<close> runs out, that is
    whether \<open>select(fd + 1, NULL, &set, NULL, &tv)\<close> would return a positive count with
    \<open>fd\<close> set. No call of the program asks for it (line 204 passes \<open>NULL\<close> as the write
    set); it is part of the environment so that "the descriptor is writable" can be said;
  \<^item> \<open>k_read fd buffer len\<close>: the result of \<open>read\<close>, the contents of the caller's
    buffer afterwards, and the value of \<open>errno\<close>.
\<close>

record kernel =
  k_open :: int
  k_geteuid :: nat
  k_ioctl :: "int \<Rightarrow> uuid_le \<Rightarrow> int \<times> mei_client"
  k_write :: "int \<Rightarrow> byte list \<Rightarrow> int \<Rightarrow> int \<times> int"
  k_select :: "int \<Rightarrow> timeval \<Rightarrow> int \<times> bool"
  k_writable :: "int \<Rightarrow> timeval \<Rightarrow> bool"
  k_read :: "int \<Rightarrow> byte list \<Rightarrow> int \<Rightarrow> int \<times> byte list \<times> int"

text \<open>A call either returns a value or ends the process with \<open>exit\<close>; both carry the
  structure as it is at that moment and the trace so far.\<close>

datatype ('r, 's) outcome =
  Returned 'r 's "event list"
| Exited int 's "event list"

subsection \<open>The macros \<open>mei_msg\<close> and \<open>mei_err\<close>, lines 42-49\<close>

definition mei_msg :: "mei \<Rightarrow> string \<Rightarrow> farg list \<Rightarrow> event list \<Rightarrow> event list" where
  "mei_msg me fmt args w = (if verbose me then w @ [Fprintf fmt args] else w)"

definition mei_err :: "mei \<Rightarrow> string \<Rightarrow> farg list \<Rightarrow> event list \<Rightarrow> event list" where
  "mei_err me fmt args w = w @ [Fprintf (''Error: '' @ fmt) args]"

subsection \<open>\<open>mei_deinit\<close>, lines 98-106\<close>

definition mei_deinit :: "mei \<Rightarrow> event list \<Rightarrow> mei \<times> event list" where
  "mei_deinit cl w =
     (cl\<lparr>fd := -1, buf_size := 0, prot_ver := 0, initialized := False\<rparr>,
      if fd cl \<noteq> -1 then w @ [SysClose (fd cl)] else w)"

subsection \<open>\<open>mei_init\<close>, lines 108-161\<close>

text \<open>Both branches of the failed \<open>open\<close> call \<open>exit(-1)\<close>, so the \<open>goto err\<close> of line
  128 is never reached and has no counterpart here.\<close>

definition mei_init ::
  "kernel \<Rightarrow> mei \<Rightarrow> uuid_le \<Rightarrow> 8 word \<Rightarrow> bool \<Rightarrow> event list \<Rightarrow> (bool, mei) outcome" where
  "mei_init k me g req_protocol_version vb w =
     (let me1 = me\<lparr>verbose := vb\<rparr>;
          me2 = me1\<lparr>fd := k_open k\<rparr>;
          w1 = w @ [SysOpen ''/dev/mei0'']
      in
      if fd me2 = -1 then
        (let w2 = w1 @ [SysGeteuid] in
         if k_geteuid k = 0 then
           Exited (-1) me2
             (mei_err me2
                ''Cannot establish a handle to the Intel(R) MEI driver. \<newline>'' [] w2)
         else
           (let w3 = mei_err me2 ''Please run this program with root privilege.\<newline>'' [] w2;
                (me3, w4) = mei_deinit me2 w3
            in Exited (-1) me3 w4))
      else
        (let me3 = me2\<lparr>guid := g\<rparr>;
             me4 = me3\<lparr>initialized := True\<rparr>;
             (result, cl) = k_ioctl k (fd me4) (guid me4);
             w2 = w1 @ [SysIoctl (fd me4) (guid me4)]
         in
         if result \<noteq> 0 then
           (let w3 = mei_err me4 ''IOCTL_MEI_CONNECT_CLIENT receive message. err=%d\<newline>''
                       [ArgInt result] w2;
                (me5, w4) = mei_deinit me4 w3
            in Returned False me5 w4)
         else
           (let w3 = mei_msg me4 ''max_message_length %d\<newline>'' [ArgU32 (max_msg_length cl)] w2;
                w4 = mei_msg me4 ''protocol_version %d\<newline>'' [ArgU8 (protocol_version cl)] w3
            in
            if req_protocol_version > 0 \<and> protocol_version cl \<noteq> req_protocol_version then
              (let w5 = mei_err me4 ''Intel(R) MEI protocol version not supported\<newline>'' [] w4;
                   (me5, w6) = mei_deinit me4 w5
               in Returned False me5 w6)
            else
              Returned True
                (me4\<lparr>buf_size := max_msg_length cl, prot_ver := protocol_version cl\<rparr>) w4)))"

subsection \<open>\<open>mei_recv_msg\<close>, lines 163-179\<close>

text \<open>The result is the value returned, the caller's buffer after the call, the
  structure and the trace.\<close>

definition mei_recv_msg ::
  "kernel \<Rightarrow> mei \<Rightarrow> byte list \<Rightarrow> int \<Rightarrow> 64 word \<Rightarrow> event list
     \<Rightarrow> int \<times> byte list \<times> mei \<times> event list" where
  "mei_recv_msg k me buffer len timeout w =
     (let w1 = mei_msg me ''call read length = %zd\<newline>'' [ArgInt len] w;
          (rc, buffer', errno) = k_read k (fd me) buffer len;
          w2 = w1 @ [SysRead (fd me) len]
      in
      if rc < 0 then
        (let w3 = mei_err me ''read failed with status %zd %s\<newline>''
                    [ArgInt rc, ArgStrerror errno] w2;
             (me', w4) = mei_deinit me w3
         in (rc, buffer', me', w4))
      else
        (rc, buffer', me, mei_msg me ''read succeeded with result %zd\<newline>'' [ArgInt rc] w2))"

subsection \<open>\<open>mei_send_msg\<close>, lines 181-222\<close>

text \<open>Lines 188-189: the \<open>timeval\<close> handed to \<open>select\<close>.\<close>

definition send_timeval :: "64 word \<Rightarrow> timeval" where
  "send_timeval timeout =
     \<lparr>tv_sec = timeout div 1000, tv_usec = (timeout mod 1000) * 1000000\<rparr>"

text \<open>Lines 218-221, the label \<open>out\<close>.\<close>

definition send_out :: "int \<Rightarrow> mei \<Rightarrow> event list \<Rightarrow> int \<times> mei \<times> event list" where
  "send_out rc me w =
     (if rc < 0 then (let (me', w') = mei_deinit me w in (rc, me', w')) else (rc, me, w))"

definition mei_send_msg ::
  "kernel \<Rightarrow> mei \<Rightarrow> byte list \<Rightarrow> int \<Rightarrow> 64 word \<Rightarrow> event list \<Rightarrow> int \<times> mei \<times> event list" where
  "mei_send_msg k me buffer len timeout w =
     (let tv = send_timeval timeout;
          w1 = mei_msg me ''call write length = %zd\<newline>'' [ArgInt len] w;
          (written, errno) = k_write k (fd me) buffer len;
          w2 = w1 @ [SysWrite (fd me) buffer len]
      in
      if written < 0 then
        send_out (- errno) me
          (mei_err me ''write failed with status %zd %s\<newline>''
             [ArgInt written, ArgStrerror errno] w2)
      else
        (let (rc, isset) = k_select k (fd me) tv;
             w3 = w2 @ [SysSelect (fd me + 1) (fd me) tv]
         in
         if rc > 0 \<and> isset then
           send_out written me (mei_msg me ''write success\<newline>'' [] w3)
         else if rc = 0 then
           send_out rc me (mei_err me ''write failed on timeout with status\<newline>'' [] w3)
         else
           send_out rc me
             (mei_err me ''write failed on select with status %zd\<newline>'' [ArgInt rc] w3)))"

subsection \<open>\<open>mkhi_host_if_fix_init\<close>, lines 226-239\<close>

text \<open>\<open>UUID_LE\<close> of the Linux header linux/uuid.h lays the first three fields out least significant
  byte first.\<close>

definition UUID_LE ::
  "32 word \<Rightarrow> 16 word \<Rightarrow> 16 word \<Rightarrow> byte \<Rightarrow> byte \<Rightarrow> byte \<Rightarrow> byte \<Rightarrow> byte \<Rightarrow> byte \<Rightarrow> byte \<Rightarrow> byte
     \<Rightarrow> uuid_le" where
  "UUID_LE a b c d0 d1 d2 d3 d4 d5 d6 d7 =
     [ucast a, ucast (drop_bit 8 a), ucast (drop_bit 16 a), ucast (drop_bit 24 a),
      ucast b, ucast (drop_bit 8 b),
      ucast c, ucast (drop_bit 8 c),
      d0, d1, d2, d3, d4, d5, d6, d7]"

definition MEI_MKHI_HIF_FIX :: uuid_le where
  "MEI_MKHI_HIF_FIX =
     UUID_LE 0x55213584 0x9a29 0x4916 0xba 0xdf 0xf 0xb7 0xed 0x68 0x2a 0xeb"

definition mkhi_host_if_fix_init ::
  "kernel \<Rightarrow> mkhi_host_if \<Rightarrow> 64 word \<Rightarrow> bool \<Rightarrow> event list \<Rightarrow> (bool, mkhi_host_if) outcome" where
  "mkhi_host_if_fix_init k acmd st vb w =
     (let acmd1 = acmd\<lparr>send_timeout := (if st \<noteq> 0 then st else 20000)\<rparr> in
      case mei_init k (mei_cl acmd1) MEI_MKHI_HIF_FIX 0 vb w of
        Exited code me' w' \<Rightarrow> Exited code (acmd1\<lparr>mei_cl := me'\<rparr>) w'
      | Returned b me' w' \<Rightarrow>
          Returned b (acmd1\<lparr>mei_cl := me', mkhi_initialized := b\<rparr>) w')"

subsection \<open>Reading a trace\<close>

text \<open>The descriptors closed, in order.\<close>

fun closes :: "event list \<Rightarrow> int list" where
  "closes [] = []"
| "closes (SysClose d # es) = d # closes es"
| "closes (e # es) = closes es"

text \<open>The device I/O attempted: the \<open>write\<close>, \<open>select\<close> and \<open>read\<close> calls, in order.\<close>

fun is_io :: "event \<Rightarrow> bool" where
  "is_io (SysWrite d b n) = True"
| "is_io (SysSelect n d tv) = True"
| "is_io (SysRead d n) = True"
| "is_io e = False"

definition io_events :: "event list \<Rightarrow> event list" where
  "io_events w = filter is_io w"

subsection \<open>Reading an outcome\<close>

fun returned :: "('r, 's) outcome \<Rightarrow> 'r option" where
  "returned (Returned r s w) = Some r"
| "returned (Exited c s w) = None"

fun exit_status :: "('r, 's) outcome \<Rightarrow> int option" where
  "exit_status (Returned r s w) = None"
| "exit_status (Exited c s w) = Some c"

fun outcome_state :: "('r, 's) outcome \<Rightarrow> 's" where
  "outcome_state (Returned r s w) = s"
| "outcome_state (Exited c s w) = s"

fun outcome_trace :: "('r, 's) outcome \<Rightarrow> event list" where
  "outcome_trace (Returned r s w) = w"
| "outcome_trace (Exited c s w) = w"

subsection \<open>Session states\<close>

text \<open>The state \<open>mei_deinit\<close> leaves: not initialized, no descriptor.\<close>

definition Uninitialized :: "mei \<Rightarrow> bool" where
  "Uninitialized me = (initialized me = False \<and> fd me = -1)"

text \<open>The invariant of an initialized session, relative to the client properties \<open>cl\<close>
  the driver returned on the connect request.\<close>

definition I1 :: "mei_client \<Rightarrow> mei \<Rightarrow> bool" where
  "I1 cl me =
     (initialized me \<longrightarrow>
        fd me \<noteq> -1 \<and> buf_size me = max_msg_length cl \<and> prot_ver me = protocol_version cl)"

subsection \<open>A device and two sessions for the examples\<close>

text \<open>A driver that hands out descriptor 3, accepts the connect request with a maximal
  message length of 512 and protocol version 1, accepts every write to descriptor 3, reports
  the descriptor readable and writable, and answers a read with four bytes (so less than the caller asks
  for); any other descriptor is refused with \<open>EBADF\<close> (9). The caller is root.\<close>

definition demo_device :: kernel where
  "demo_device =
     \<lparr>k_open = 3, k_geteuid = 0,
      k_ioctl = (\<lambda>d u. (0, \<lparr>max_msg_length = 512, protocol_version = 1\<rparr>)),
      k_write = (\<lambda>d b n. if d = 3 then (n, 0) else (-1, 9)),
      k_select = (\<lambda>d tv. (1, True)),
      k_writable = (\<lambda>d tv. d = 3),
      k_read = (\<lambda>d b n. if d = 3 then (4, [0xff, 0x82, 0, 0] @ drop 4 b, 0) else (-1, b, 9))\<rparr>"

text \<open>A session as a successful \<open>mei_init\<close> on that driver leaves it, and one as
  \<open>mei_deinit\<close> leaves it.\<close>

definition demo_session :: mei where
  "demo_session =
     \<lparr>guid = MEI_MKHI_HIF_FIX, initialized = True, verbose = False, buf_size = 512,
      prot_ver = 1, fd = 3\<rparr>"

definition closed_session :: mei where
  "closed_session =
     \<lparr>guid = MEI_MKHI_HIF_FIX, initialized = False, verbose = False, buf_size = 0,
      prot_ver = 0, fd = -1\<rparr>"

section \<open>Properties\<close>

subsection \<open>Traces\<close>

lemma closes_append: "closes (xs @ ys) = closes xs @ closes ys"
  by (induction xs rule: closes.induct) simp_all

lemma closes_mei_msg: "closes (mei_msg me fmt args w) = closes w"
  by (simp add: mei_msg_def closes_append)

lemma closes_mei_err: "closes (mei_err me fmt args w) = closes w"
  by (simp add: mei_err_def closes_append)

lemma io_events_append: "io_events (xs @ ys) = io_events xs @ io_events ys"
  by (simp add: io_events_def)

lemma io_events_mei_msg: "io_events (mei_msg me fmt args w) = io_events w"
  by (simp add: mei_msg_def io_events_def)

lemma io_events_mei_err: "io_events (mei_err me fmt args w) = io_events w"
  by (simp add: mei_err_def io_events_def)

subsection \<open>Teardown after a failed transfer\<close>

text \<open>Three of the four failures of a transfer do tear the session down. On a session
  that holds a descriptor, a failed \<open>write\<close> (with \<open>errno\<close> set, so positive), a negative
  result of \<open>select\<close> and a failed \<open>read\<close> each return a negative value, leave the session
  uninitialized and close the descriptor exactly once.\<close>

lemma fatal_paths_teardown:
  assumes "fd me \<noteq> -1"
  shows "(k_write k (fd me) sbuf slen = (written, e) \<and> written < 0 \<and> 0 < e \<longrightarrow>
            fst (mei_send_msg k me sbuf slen t w) = - e
          \<and> Uninitialized (fst (snd (mei_send_msg k me sbuf slen t w)))
          \<and> closes (snd (snd (mei_send_msg k me sbuf slen t w))) = closes w @ [fd me])
       \<and> (k_write k (fd me) sbuf slen = (written, e) \<and> 0 \<le> written
            \<and> k_select k (fd me) (send_timeval t) = (rc, isset) \<and> rc < 0 \<longrightarrow>
            fst (mei_send_msg k me sbuf slen t w) = rc
          \<and> Uninitialized (fst (snd (mei_send_msg k me sbuf slen t w)))
          \<and> closes (snd (snd (mei_send_msg k me sbuf slen t w))) = closes w @ [fd me])
       \<and> (k_read k (fd me) rbuf cap = (n, rbuf', e') \<and> n < 0 \<longrightarrow>
            fst (mei_recv_msg k me rbuf cap t' w) = n
          \<and> Uninitialized (fst (snd (snd (mei_recv_msg k me rbuf cap t' w))))
          \<and> closes (snd (snd (snd (mei_recv_msg k me rbuf cap t' w)))) = closes w @ [fd me])"
  using assms
  by (simp add: mei_send_msg_def mei_recv_msg_def send_out_def mei_deinit_def Let_def
      Uninitialized_def closes_append closes_mei_msg closes_mei_err)

text \<open>The fourth does not. When the \<open>write\<close> succeeds and \<open>select\<close> returns 0, the code
  reports "write failed on timeout" and jumps to \<open>out\<close> with \<open>rc = 0\<close>; the test
  \<open>rc < 0\<close> there fails, so \<open>mei_deinit\<close> is not called: the call returns 0, and the
  session and its descriptor stay as they were.\<close>

lemma send_timeout_path:
  assumes "k_write k (fd me) sbuf slen = (written, e)" and "0 \<le> written"
    and "k_select k (fd me) (send_timeval t) = (0, isset)"
  shows "mei_send_msg k me sbuf slen t w =
           (0, me,
            mei_err me ''write failed on timeout with status\<newline>'' []
              (mei_msg me ''call write length = %zd\<newline>'' [ArgInt slen] w
                 @ [SysWrite (fd me) sbuf slen,
                    SysSelect (fd me + 1) (fd me) (send_timeval t)]))"
  using assms by (simp add: mei_send_msg_def send_out_def Let_def)

text \<open>
  C1. Every fatal transfer error leaves an initialized session uninitialized with the
  descriptor closed exactly once; in particular a send whose write succeeds and whose
  wait times out fails and tears the session down. The code does not do this on the
  timeout: on the initialized session \<open>demo_session\<close> (descriptor 3), with a driver that
  accepts the four bytes written and lets \<open>select\<close> run into the deadline of 5000 ms,
  \<open>mei_send_msg\<close> returns 0, the session is unchanged (still initialized, descriptor 3)
  and the trace holds no \<open>close\<close>.
\<close>

theorem send_timeout_keeps_session:
  "mei_send_msg (demo_device\<lparr>k_select := \<lambda>d tv. (0, False)\<rparr>) demo_session
       [0xff, 2, 0, 0] 4 5000 [] =
     (0, demo_session,
      [SysWrite 3 [0xff, 2, 0, 0] 4, SysSelect 4 3 \<lparr>tv_sec = 5, tv_usec = 0\<rparr>,
       Fprintf ''Error: write failed on timeout with status\<newline>'' []])
   \<and> initialized demo_session \<and> fd demo_session = 3"
  by (simp add: mei_send_msg_def demo_device_def demo_session_def send_timeval_def send_out_def
      mei_msg_def mei_err_def)

subsection \<open>Connecting\<close>

text \<open>
  C2. Let the \<open>open\<close> succeed and the connect request answer \<open>result\<close> with client
  properties \<open>cl\<close>. If the request succeeds, a protocol version greater than 0 was
  asked for and the driver's differs, \<open>mei_init\<close> returns false after reporting that the
  protocol version is not supported, the session is uninitialized and the descriptor
  opened is closed (once, and nothing else is). If 0 was asked for, whatever version the
  driver returns is accepted: \<open>mei_init\<close> returns true, the session is initialized and
  holds the driver's values, and nothing is closed. If the request fails, \<open>mei_init\<close>
  returns false with the same cleanup. And whenever \<open>mei_init\<close> returns false, the session
  is reset and the descriptor opened is closed.
\<close>

theorem mei_init_negotiation_gate:
  assumes "k_ioctl k (k_open k) g = (result, cl)"
  shows "(k_open k \<noteq> -1 \<and> result = 0 \<and> 0 < req \<and> protocol_version cl \<noteq> req \<longrightarrow>
            returned (mei_init k me g req vb w) = Some False
          \<and> Uninitialized (outcome_state (mei_init k me g req vb w))
          \<and> closes (outcome_trace (mei_init k me g req vb w)) = closes w @ [k_open k]
          \<and> Fprintf ''Error: Intel(R) MEI protocol version not supported\<newline>'' []
              \<in> set (outcome_trace (mei_init k me g req vb w)))
       \<and> (k_open k \<noteq> -1 \<and> result = 0 \<and> req = 0 \<longrightarrow>
            returned (mei_init k me g req vb w) = Some True
          \<and> initialized (outcome_state (mei_init k me g req vb w))
          \<and> fd (outcome_state (mei_init k me g req vb w)) = k_open k
          \<and> prot_ver (outcome_state (mei_init k me g req vb w)) = protocol_version cl
          \<and> buf_size (outcome_state (mei_init k me g req vb w)) = max_msg_length cl
          \<and> closes (outcome_trace (mei_init k me g req vb w)) = closes w)
       \<and> (k_open k \<noteq> -1 \<and> result \<noteq> 0 \<longrightarrow>
            returned (mei_init k me g req vb w) = Some False
          \<and> Uninitialized (outcome_state (mei_init k me g req vb w))
          \<and> closes (outcome_trace (mei_init k me g req vb w)) = closes w @ [k_open k])
       \<and> (returned (mei_init k me g req vb w) = Some False \<longrightarrow>
            Uninitialized (outcome_state (mei_init k me g req vb w))
          \<and> buf_size (outcome_state (mei_init k me g req vb w)) = 0
          \<and> prot_ver (outcome_state (mei_init k me g req vb w)) = 0
          \<and> closes (outcome_trace (mei_init k me g req vb w)) = closes w @ [k_open k])"
  using assms
  by (simp add: mei_init_def Let_def mei_deinit_def Uninitialized_def closes_append
      closes_mei_msg closes_mei_err mei_err_def)

text \<open>On \<open>demo_device\<close> (protocol version 1): asking for version 2 is refused, asking
  for 0 is accepted, and a connect request that fails with -1 is refused; both refusals
  close descriptor 3.\<close>

theorem mei_init_negotiation_gate_witness:
  "returned (mei_init demo_device closed_session MEI_MKHI_HIF_FIX 2 False []) = Some False
   \<and> Uninitialized (outcome_state (mei_init demo_device closed_session MEI_MKHI_HIF_FIX 2 False []))
   \<and> closes (outcome_trace (mei_init demo_device closed_session MEI_MKHI_HIF_FIX 2 False [])) = [3]
   \<and> returned (mei_init demo_device closed_session MEI_MKHI_HIF_FIX 0 False []) = Some True
   \<and> prot_ver (outcome_state (mei_init demo_device closed_session MEI_MKHI_HIF_FIX 0 False [])) = 1
   \<and> closes (outcome_trace (mei_init demo_device closed_session MEI_MKHI_HIF_FIX 0 False [])) = []
   \<and> returned (mei_init (demo_device\<lparr>k_ioctl := \<lambda>d u. (-1, \<lparr>max_msg_length = 0, protocol_version = 0\<rparr>)\<rparr>)
        closed_session MEI_MKHI_HIF_FIX 0 False []) = Some False
   \<and> closes (outcome_trace
        (mei_init (demo_device\<lparr>k_ioctl := \<lambda>d u. (-1, \<lparr>max_msg_length = 0, protocol_version = 0\<rparr>)\<rparr>)
           closed_session MEI_MKHI_HIF_FIX 0 False [])) = [3]"
  using
    mei_init_negotiation_gate [where k = demo_device and g = MEI_MKHI_HIF_FIX and result = 0
      and cl = "\<lparr>max_msg_length = 512, protocol_version = 1\<rparr>" and req = 2
      and me = closed_session and vb = False and w = "[]"]
    mei_init_negotiation_gate [where k = demo_device and g = MEI_MKHI_HIF_FIX and result = 0
      and cl = "\<lparr>max_msg_length = 512, protocol_version = 1\<rparr>" and req = 0
      and me = closed_session and vb = False and w = "[]"]
    mei_init_negotiation_gate
      [where k = "demo_device\<lparr>k_ioctl := \<lambda>d u. (-1, \<lparr>max_msg_length = 0, protocol_version = 0\<rparr>)\<rparr>"
      and g = MEI_MKHI_HIF_FIX and result = "-1"
      and cl = "\<lparr>max_msg_length = 0, protocol_version = 0\<rparr>" and req = 0
      and me = closed_session and vb = False and w = "[]"]
  by (simp add: demo_device_def)

subsection \<open>Transfers on a session that is not initialized\<close>

text \<open>Neither \<open>mei_send_msg\<close> nor \<open>mei_recv_msg\<close> reads \<open>me->initialized\<close>. On the
  torn-down session \<open>closed_session\<close> (not initialized, descriptor -1) both go to the
  device: the send calls \<open>write\<close> and the receive calls \<open>read\<close>, each on descriptor -1.\<close>

theorem transfer_without_init_counterexample:
  "initialized closed_session = False
   \<and> io_events (snd (snd (mei_send_msg demo_device closed_session [0xff, 2, 0, 0] 4 5000 []))) =
       [SysWrite (-1) [0xff, 2, 0, 0] 4]
   \<and> io_events (snd (snd (snd (mei_recv_msg demo_device closed_session [0, 0, 0, 0] 4 5000 [])))) =
       [SysRead (-1) 4]"
  by (simp add: mei_send_msg_def mei_recv_msg_def send_out_def mei_deinit_def mei_msg_def
      mei_err_def demo_device_def closed_session_def io_events_def)

text \<open>
  C3, amended. For every session with \<open>initialized == false\<close>, send and receive do not
  check the flag and do attempt the I/O: the send calls \<open>write\<close> on the stored
  descriptor (followed by \<open>select\<close> only if the write did not fail) and the receive
  calls \<open>read\<close> on it. When that call fails (a negative result, with \<open>errno\<close> set for the
  write), the send returns the negated \<open>errno\<close> and the receive the result of \<open>read\<close>, so
  a negative value and no \<open>NotInitialized\<close> error; the session is uninitialized
  afterwards, and on a torn-down session (descriptor -1) nothing is closed.
\<close>

theorem transfer_without_init:
  assumes "initialized me = False"
  shows "(io_events (snd (snd (mei_send_msg k me sbuf slen t w))) =
            io_events w @ SysWrite (fd me) sbuf slen #
              (if fst (k_write k (fd me) sbuf slen) < 0 then []
               else [SysSelect (fd me + 1) (fd me) (send_timeval t)]))
       \<and> (io_events (snd (snd (snd (mei_recv_msg k me rbuf rlen t w)))) =
            io_events w @ [SysRead (fd me) rlen])
       \<and> (k_write k (fd me) sbuf slen = (written, e) \<and> written < 0 \<and> 0 < e \<longrightarrow>
            fst (mei_send_msg k me sbuf slen t w) = - e
          \<and> fst (mei_send_msg k me sbuf slen t w) < 0
          \<and> Uninitialized (fst (snd (mei_send_msg k me sbuf slen t w)))
          \<and> (fd me = -1 \<longrightarrow> closes (snd (snd (mei_send_msg k me sbuf slen t w))) = closes w))
       \<and> (k_read k (fd me) rbuf rlen = (n, rbuf', e') \<and> n < 0 \<longrightarrow>
            fst (mei_recv_msg k me rbuf rlen t w) = n
          \<and> Uninitialized (fst (snd (snd (mei_recv_msg k me rbuf rlen t w))))
          \<and> (fd me = -1 \<longrightarrow>
                closes (snd (snd (snd (mei_recv_msg k me rbuf rlen t w)))) = closes w))"
  using assms
  by (simp add: mei_send_msg_def mei_recv_msg_def send_out_def mei_deinit_def Let_def
      Uninitialized_def closes_append closes_mei_msg closes_mei_err
      io_events_append io_events_mei_msg io_events_mei_err split: prod.split)
     (simp add: io_events_def)

text \<open>On \<open>closed_session\<close>, where \<open>demo_device\<close> refuses descriptor -1 with \<open>EBADF\<close>:
  the send returns -9 and the receive -1, after one \<open>write\<close> and one \<open>read\<close>.\<close>

theorem transfer_without_init_witness:
  "initialized closed_session = False
   \<and> k_write demo_device (fd closed_session) [0xff, 2, 0, 0] 4 = (-1, 9)
   \<and> k_read demo_device (fd closed_session) [0, 0, 0, 0] 4 = (-1, [0, 0, 0, 0], 9)
   \<and> fd closed_session = -1
   \<and> io_events (snd (snd (mei_send_msg demo_device closed_session [0xff, 2, 0, 0] 4 5000 []))) =
       [SysWrite (fd closed_session) [0xff, 2, 0, 0] 4]
   \<and> fst (mei_send_msg demo_device closed_session [0xff, 2, 0, 0] 4 5000 []) = -9
   \<and> Uninitialized (fst (snd (mei_send_msg demo_device closed_session [0xff, 2, 0, 0] 4 5000 [])))
   \<and> closes (snd (snd (mei_send_msg demo_device closed_session [0xff, 2, 0, 0] 4 5000 []))) = []
   \<and> fst (mei_recv_msg demo_device closed_session [0, 0, 0, 0] 4 5000 []) = -1
   \<and> Uninitialized (fst (snd (snd (mei_recv_msg demo_device closed_session [0, 0, 0, 0] 4 5000 []))))
   \<and> closes (snd (snd (snd (mei_recv_msg demo_device closed_session [0, 0, 0, 0] 4 5000 [])))) = []"
proof -
  have i: "initialized closed_session = False"
    by (simp add: closed_session_def)
  have d: "fd closed_session = -1"
    by (simp add: closed_session_def)
  have wr: "k_write demo_device (fd closed_session) [0xff, 2, 0, 0] 4 = (-1, 9)"
    by (simp add: demo_device_def d)
  have rd: "k_read demo_device (fd closed_session) [0, 0, 0, 0] 4 = (-1, [0, 0, 0, 0], 9)"
    by (simp add: demo_device_def d)
  show ?thesis
    using transfer_without_init [OF i, where k = demo_device and sbuf = "[0xff, 2, 0, 0]"
        and slen = 4 and t = 5000 and w = "[]" and written = "-1" and e = 9
        and rbuf = "[0, 0, 0, 0]" and rlen = 4 and n = "-1" and rbuf' = "[0, 0, 0, 0]" and e' = 9]
      i d wr rd
    by (simp add: io_events_def)
qed

subsection \<open>Closing\<close>

text \<open>
  C4. Closing is idempotent. After one \<open>mei_deinit\<close> the stored descriptor is -1, and a
  second \<open>mei_deinit\<close> right after it changes neither the session nor the trace; called
  at any later point \<open>w'\<close> on the closed session it adds nothing to the trace, so it
  performs no \<open>close\<close>. The first one closes the descriptor it finds, unless that is -1.
\<close>

theorem mei_deinit_idempotent:
  "(case mei_deinit cl w of
      (cl1, w1) \<Rightarrow>
        fd cl1 = -1 \<and> mei_deinit cl1 w1 = (cl1, w1) \<and> mei_deinit cl1 w' = (cl1, w'))
   \<and> closes (snd (mei_deinit cl w)) = closes w @ (if fd cl = -1 then [] else [fd cl])"
  by (simp add: mei_deinit_def closes_append)

text \<open>Closing \<open>demo_session\<close> twice: descriptor 3 is closed once.\<close>

theorem mei_deinit_idempotent_witness:
  "mei_deinit (fst (mei_deinit demo_session [])) (snd (mei_deinit demo_session [])) =
     (closed_session, [SysClose 3])
   \<and> mei_deinit demo_session [] = (closed_session, [SysClose 3])"
  using mei_deinit_idempotent [where cl = demo_session and w = "[]" and w' = "[]"]
  by (simp add: mei_deinit_def demo_session_def closed_session_def)

subsection \<open>The invariant of an initialized session\<close>

lemma I1_mei_deinit: "I1 cl (fst (mei_deinit me w))"
  by (simp add: I1_def mei_deinit_def)

text \<open>A send or a receive leaves the structure as it was or as \<open>mei_deinit\<close> leaves it.\<close>

lemma send_state_cases:
  "fst (snd (mei_send_msg k me buffer len t w)) = me \<or>
   fst (snd (mei_send_msg k me buffer len t w)) = fst (mei_deinit me w')"
  by (simp add: mei_send_msg_def send_out_def mei_deinit_def Let_def split: prod.split)

lemma recv_state_cases:
  "fst (snd (snd (mei_recv_msg k me buffer len t w))) = me \<or>
   fst (snd (snd (mei_recv_msg k me buffer len t w))) = fst (mei_deinit me w')"
  by (simp add: mei_recv_msg_def mei_deinit_def Let_def split: prod.split)

text \<open>
  C5. "\<open>initialized == true\<close> implies that the descriptor is not -1 and that the maximal
  message length and the protocol version stored are those of the driver's connect
  response" holds after every completed operation. A connect that returns (rather than
  ending the process) establishes it for the response \<open>snd (k_ioctl k (k_open k) g)\<close> of
  its own connect request, whatever the structure held before; a send and a receive
  preserve it; a close establishes it.
\<close>

theorem I1_after_every_operation:
  "(returned (mei_init k me g req vb w) \<noteq> None \<longrightarrow>
      I1 (snd (k_ioctl k (k_open k) g)) (outcome_state (mei_init k me g req vb w)))
   \<and> (I1 cl me \<longrightarrow> I1 cl (fst (snd (mei_send_msg k me sbuf slen t w))))
   \<and> (I1 cl me \<longrightarrow> I1 cl (fst (snd (snd (mei_recv_msg k me rbuf rlen t w)))))
   \<and> I1 cl (fst (mei_deinit me w))"
proof (intro conjI impI)
  show "I1 (snd (k_ioctl k (k_open k) g)) (outcome_state (mei_init k me g req vb w))"
    if "returned (mei_init k me g req vb w) \<noteq> None"
    using that
    by (simp add: mei_init_def Let_def mei_deinit_def I1_def split: prod.split if_splits)
  show "I1 cl (fst (snd (mei_send_msg k me sbuf slen t w)))" if "I1 cl me"
    using that send_state_cases [of k me sbuf slen t w w] I1_mei_deinit [of cl me w] by auto
  show "I1 cl (fst (snd (snd (mei_recv_msg k me rbuf rlen t w))))" if "I1 cl me"
    using that recv_state_cases [of k me rbuf rlen t w w] I1_mei_deinit [of cl me w] by auto
  show "I1 cl (fst (mei_deinit me w))"
    by (rule I1_mei_deinit)
qed

text \<open>On \<open>demo_device\<close>: the connect returns an initialized session with descriptor 3,
  length 512 and version 1, and a send and a receive on \<open>demo_session\<close> keep these.\<close>

theorem I1_after_every_operation_witness:
  "returned (mei_init demo_device closed_session MEI_MKHI_HIF_FIX 0 False []) \<noteq> None
   \<and> initialized (outcome_state (mei_init demo_device closed_session MEI_MKHI_HIF_FIX 0 False []))
   \<and> fd (outcome_state (mei_init demo_device closed_session MEI_MKHI_HIF_FIX 0 False [])) \<noteq> -1
   \<and> buf_size (outcome_state (mei_init demo_device closed_session MEI_MKHI_HIF_FIX 0 False [])) = 512
   \<and> prot_ver (outcome_state (mei_init demo_device closed_session MEI_MKHI_HIF_FIX 0 False [])) = 1
   \<and> I1 \<lparr>max_msg_length = 512, protocol_version = 1\<rparr> demo_session
   \<and> initialized (fst (snd (mei_send_msg demo_device demo_session [0xff, 2, 0, 0] 4 5000 [])))
   \<and> I1 \<lparr>max_msg_length = 512, protocol_version = 1\<rparr>
        (fst (snd (mei_send_msg demo_device demo_session [0xff, 2, 0, 0] 4 5000 [])))
   \<and> initialized (fst (snd (snd (mei_recv_msg demo_device demo_session [0, 0, 0, 0] 4 5000 []))))
   \<and> I1 \<lparr>max_msg_length = 512, protocol_version = 1\<rparr>
        (fst (snd (snd (mei_recv_msg demo_device demo_session [0, 0, 0, 0] 4 5000 []))))"
proof -
  have r: "returned (mei_init demo_device closed_session MEI_MKHI_HIF_FIX 0 False []) \<noteq> None"
    and i: "initialized (outcome_state (mei_init demo_device closed_session MEI_MKHI_HIF_FIX 0 False []))"
    by (simp_all add: mei_init_def demo_device_def Let_def mei_msg_def)
  have inv: "I1 \<lparr>max_msg_length = 512, protocol_version = 1\<rparr> demo_session"
    by (simp add: I1_def demo_session_def)
  have s: "initialized (fst (snd (mei_send_msg demo_device demo_session [0xff, 2, 0, 0] 4 5000 [])))"
    by (simp add: mei_send_msg_def send_out_def demo_device_def demo_session_def)
  have v: "initialized (fst (snd (snd (mei_recv_msg demo_device demo_session [0, 0, 0, 0] 4 5000 []))))"
    by (simp add: mei_recv_msg_def demo_device_def demo_session_def)
  note a = I1_after_every_operation [where k = demo_device and me = closed_session
      and g = MEI_MKHI_HIF_FIX and req = 0 and vb = False and w = "[]"]
  note b = I1_after_every_operation [where k = demo_device and me = demo_session
      and cl = "\<lparr>max_msg_length = 512, protocol_version = 1\<rparr>" and sbuf = "[0xff, 2, 0, 0]"
      and slen = 4 and rbuf = "[0, 0, 0, 0]" and rlen = 4 and t = 5000 and w = "[]"]
  from a r have "I1 (snd (k_ioctl demo_device (k_open demo_device) MEI_MKHI_HIF_FIX))
      (outcome_state (mei_init demo_device closed_session MEI_MKHI_HIF_FIX 0 False []))"
    by blast
  with i have c: "fd (outcome_state (mei_init demo_device closed_session MEI_MKHI_HIF_FIX 0 False [])) \<noteq> -1
      \<and> buf_size (outcome_state (mei_init demo_device closed_session MEI_MKHI_HIF_FIX 0 False [])) = 512
      \<and> prot_ver (outcome_state (mei_init demo_device closed_session MEI_MKHI_HIF_FIX 0 False [])) = 1"
    by (simp add: I1_def demo_device_def)
  from b inv have "I1 \<lparr>max_msg_length = 512, protocol_version = 1\<rparr>
        (fst (snd (mei_send_msg demo_device demo_session [0xff, 2, 0, 0] 4 5000 [])))
      \<and> I1 \<lparr>max_msg_length = 512, protocol_version = 1\<rparr>
        (fst (snd (snd (mei_recv_msg demo_device demo_session [0, 0, 0, 0] 4 5000 []))))"
    by blast
  with r i inv s v c show ?thesis by blast
qed

subsection \<open>Receiving\<close>

text \<open>
  C6. The receive does not depend on the deadline it is given: two calls that differ
  only in \<open>timeout\<close> return the same value, leave the same bytes in the buffer, the same
  session and the same trace, for every session, buffer, capacity and driver.
\<close>

theorem mei_recv_msg_ignores_timeout:
  "mei_recv_msg k me buffer len t1 w = mei_recv_msg k me buffer len t2 w"
  by (simp add: mei_recv_msg_def)

text \<open>With deadlines 0 and 5000 on \<open>demo_session\<close>: in both cases 4 bytes are read.\<close>

theorem mei_recv_msg_ignores_timeout_witness:
  "mei_recv_msg demo_device demo_session [0, 0, 0, 0, 0, 0] 6 0 [] =
     mei_recv_msg demo_device demo_session [0, 0, 0, 0, 0, 0] 6 5000 []
   \<and> mei_recv_msg demo_device demo_session [0, 0, 0, 0, 0, 0] 6 5000 [] =
       (4, [0xff, 0x82, 0, 0, 0, 0], demo_session, [SysRead 3 6])"
  using mei_recv_msg_ignores_timeout [where k = demo_device and me = demo_session
      and buffer = "[0, 0, 0, 0, 0, 0]" and len = 6 and ?t1.0 = 0 and ?t2.0 = 5000 and w = "[]"]
  by (simp add: mei_recv_msg_def demo_device_def demo_session_def mei_msg_def)

subsection \<open>Sending\<close>

text \<open>The \<open>timeval\<close> of lines 188-189, read as numbers: \<open>timeout / 1000\<close> seconds and
  \<open>(timeout % 1000) * 1000000\<close> microseconds (the product is below \<open>10^9\<close>, so nothing
  wraps around and both fields are non-negative as \<open>long\<close>).\<close>

lemma send_timeval_value:
  "unat (tv_sec (send_timeval t)) = unat t div 1000 \<and>
   unat (tv_usec (send_timeval t)) = (unat t mod 1000) * 1000000"
proof -
  have m: "unat (t mod 1000) = unat t mod 1000"
    by (simp add: unat_mod)
  have "unat (t mod 1000) * unat (1000000 :: 64 word) < 2 ^ LENGTH(64)"
    using m by simp
  then have "unat ((t mod 1000) * 1000000) = unat (t mod 1000) * unat (1000000 :: 64 word)"
    by (simp only: unat_mult_lem [THEN iffD1])
  then show ?thesis
    using m by (simp add: send_timeval_def unat_div)
qed

text \<open>So the duration handed to \<open>select\<close> is \<open>timeout\<close> milliseconds, with the
  microseconds below a million, exactly when \<open>timeout\<close> is a whole number of seconds.\<close>

lemma send_timeval_exact_iff:
  "(unat (tv_sec (send_timeval t)) * 1000 + unat (tv_usec (send_timeval t)) div 1000 = unat t
      \<and> unat (tv_usec (send_timeval t)) < 1000000)
   \<longleftrightarrow> unat t mod 1000 = 0"
proof -
  have s: "unat (tv_sec (send_timeval t)) = unat t div 1000"
    and u: "unat (tv_usec (send_timeval t)) = (unat t mod 1000) * 1000000"
    using send_timeval_value [of t] by simp_all
  have d: "unat t div 1000 * 1000 + unat t mod 1000 = unat t"
    by (rule div_mult_mod_eq)
  show ?thesis
    unfolding s u
  proof
    assume "unat t div 1000 * 1000 + unat t mod 1000 * 1000000 div 1000 = unat t
        \<and> unat t mod 1000 * 1000000 < 1000000"
    then have "unat t mod 1000 * 1000000 < 1 * 1000000"
      by simp
    then have "unat t mod 1000 < 1"
      by (simp only: mult_less_cancel2)
    then show "unat t mod 1000 = 0"
      by simp
  next
    assume z: "unat t mod 1000 = 0"
    with d have "unat t div 1000 * 1000 = unat t"
      by simp
    with z show "unat t div 1000 * 1000 + unat t mod 1000 * 1000000 div 1000 = unat t
        \<and> unat t mod 1000 * 1000000 < 1000000"
      by simp
  qed
qed

text \<open>
  C7. The wait of a send is bounded by exactly \<open>timeout\<close> milliseconds: the \<open>timeval\<close>
  handed to \<open>select\<close> has \<open>tv_sec * 1000 + tv_usec / 1000 == timeout\<close> and
  \<open>tv_usec < 1000000\<close>, that is \<open>tv_usec = (timeout % 1000) * 1000\<close>. The code multiplies
  by 1000000 instead: a send with a deadline of 1500 ms on \<open>demo_session\<close> calls
  \<open>select\<close> with \<open>tv_sec = 1\<close> and \<open>tv_usec = 500000000\<close>, which is not below a million
  and stands for 501 seconds.
\<close>

theorem send_timeval_1500:
  "io_events (snd (snd (mei_send_msg demo_device demo_session [0xff, 2, 0, 0] 4 1500 []))) =
     [SysWrite 3 [0xff, 2, 0, 0] 4, SysSelect 4 3 \<lparr>tv_sec = 1, tv_usec = 500000000\<rparr>]
   \<and> unat (tv_sec (send_timeval 1500)) * 1000 + unat (tv_usec (send_timeval 1500)) div 1000
       = 501000
   \<and> \<not> unat (tv_usec (send_timeval 1500)) < 1000000"
  by (simp add: mei_send_msg_def demo_device_def demo_session_def send_timeval_def send_out_def
      mei_msg_def mei_err_def io_events_def)


text \<open>Whether the descriptor is writable has no part in a send.\<close>

lemma mei_send_msg_ignores_writable:
  "mei_send_msg (k\<lparr>k_writable := f\<rparr>) me sbuf slen t w = mei_send_msg k me sbuf slen t w"
  by (simp add: mei_send_msg_def Let_def split: prod.split)



subsection \<open>A failed open\<close>

text \<open>When the \<open>open\<close> fails, \<open>mei_init\<close> does not return: for a caller that is not
  root (effective user id 1000) as for root, the process ends with \<open>exit(-1)\<close>, so the
  caller of \<open>mei_init\<close> receives no result, and the exit status is the same in both
  cases.\<close>

theorem mei_init_open_failure_counterexample:
  "returned (mei_init (demo_device\<lparr>k_open := -1, k_geteuid := 1000\<rparr>) closed_session
       MEI_MKHI_HIF_FIX 0 True []) = None
   \<and> returned (mei_init (demo_device\<lparr>k_open := -1\<rparr>) closed_session
       MEI_MKHI_HIF_FIX 0 True []) = None
   \<and> exit_status (mei_init (demo_device\<lparr>k_open := -1, k_geteuid := 1000\<rparr>) closed_session
       MEI_MKHI_HIF_FIX 0 True []) =
     exit_status (mei_init (demo_device\<lparr>k_open := -1\<rparr>) closed_session
       MEI_MKHI_HIF_FIX 0 True [])"
  by (simp add: mei_init_def Let_def mei_deinit_def demo_device_def)

text \<open>
  C9, amended. For every failed device open, \<open>mei_init\<close> asks for the effective user id
  before it reports, and tells a missing privilege from an unavailable device by the
  message it writes to \<open>stderr\<close>: "Please run this program with root privilege." when
  the caller is not root, "Cannot establish a handle to the Intel(R) MEI driver." when
  it is; the two messages differ. In both cases the process is then ended with
  \<open>exit(-1)\<close>: nothing is returned to the caller, and no descriptor is closed.
\<close>

theorem mei_init_open_failure:
  assumes "k_open k = -1"
  shows "returned (mei_init k me g req vb w) = None
       \<and> exit_status (mei_init k me g req vb w) = Some (-1)
       \<and> outcome_trace (mei_init k me g req vb w) =
           w @ [SysOpen ''/dev/mei0'', SysGeteuid,
                Fprintf (if k_geteuid k = 0
                         then ''Error: Cannot establish a handle to the Intel(R) MEI driver. \<newline>''
                         else ''Error: Please run this program with root privilege.\<newline>'') []]
       \<and> ''Error: Cannot establish a handle to the Intel(R) MEI driver. \<newline>''
            \<noteq> ''Error: Please run this program with root privilege.\<newline>''"
  using assms
  by (simp add: mei_init_def Let_def mei_deinit_def mei_err_def)

text \<open>The two reports, for user id 1000 and for root.\<close>

theorem mei_init_open_failure_witness:
  "k_open (demo_device\<lparr>k_open := -1, k_geteuid := 1000\<rparr>) = -1
   \<and> outcome_trace (mei_init (demo_device\<lparr>k_open := -1, k_geteuid := 1000\<rparr>) closed_session
        MEI_MKHI_HIF_FIX 0 True []) =
       [SysOpen ''/dev/mei0'', SysGeteuid,
        Fprintf ''Error: Please run this program with root privilege.\<newline>'' []]
   \<and> exit_status (mei_init (demo_device\<lparr>k_open := -1, k_geteuid := 1000\<rparr>) closed_session
        MEI_MKHI_HIF_FIX 0 True []) = Some (-1)
   \<and> k_open (demo_device\<lparr>k_open := -1\<rparr>) = -1
   \<and> outcome_trace (mei_init (demo_device\<lparr>k_open := -1\<rparr>) closed_session
        MEI_MKHI_HIF_FIX 0 True []) =
       [SysOpen ''/dev/mei0'', SysGeteuid,
        Fprintf ''Error: Cannot establish a handle to the Intel(R) MEI driver. \<newline>'' []]
   \<and> exit_status (mei_init (demo_device\<lparr>k_open := -1\<rparr>) closed_session
        MEI_MKHI_HIF_FIX 0 True []) = Some (-1)"
proof -
  have a: "k_open (demo_device\<lparr>k_open := -1, k_geteuid := 1000\<rparr>) = -1"
    and b: "k_open (demo_device\<lparr>k_open := -1\<rparr>) = -1"
    by simp_all
  have e: "k_geteuid (demo_device\<lparr>k_open := -1, k_geteuid := 1000\<rparr>) = 1000"
    and r: "k_geteuid (demo_device\<lparr>k_open := -1\<rparr>) = 0"
    by (simp_all add: demo_device_def)
  show ?thesis
    using mei_init_open_failure [OF a, where me = closed_session and g = MEI_MKHI_HIF_FIX
        and req = 0 and vb = True and w = "[]"]
      mei_init_open_failure [OF b, where me = closed_session and g = MEI_MKHI_HIF_FIX
        and req = 0 and vb = True and w = "[]"]
    by (simp only: a b e r) simp
qed

subsection \<open>The MKHI session\<close>

text \<open>
  C10. \<open>mkhi_host_if_fix_init\<close> stores the caller's \<open>send_timeout\<close> when it is not 0 and
  20000 when it is 0. The store comes before \<open>mei_init\<close> is called, so this holds of the
  structure whether the call returns or the process exits in \<open>mei_init\<close>.
\<close>

theorem mkhi_send_timeout_default:
  "send_timeout (outcome_state (mkhi_host_if_fix_init k acmd st vb w)) =
     (if st \<noteq> 0 then st else 20000)"
  by (simp add: mkhi_host_if_fix_init_def Let_def split: outcome.split)

text \<open>With 0 the session is given 20000 ms, with 5000 (the value \<open>main\<close> passes) 5000.\<close>

theorem mkhi_send_timeout_default_witness:
  "send_timeout (outcome_state (mkhi_host_if_fix_init demo_device
       \<lparr>mei_cl = closed_session, send_timeout = 7, mkhi_initialized = False\<rparr> 0 True [])) = 20000
   \<and> send_timeout (outcome_state (mkhi_host_if_fix_init demo_device
       \<lparr>mei_cl = closed_session, send_timeout = 7, mkhi_initialized = False\<rparr> 5000 True [])) = 5000"
  using
    mkhi_send_timeout_default [where k = demo_device and st = 0 and vb = True and w = "[]"
      and acmd = "\<lparr>mei_cl = closed_session, send_timeout = 7, mkhi_initialized = False\<rparr>"]
    mkhi_send_timeout_default [where k = demo_device and st = 5000 and vb = True and w = "[]"
      and acmd = "\<lparr>mei_cl = closed_session, send_timeout = 7, mkhi_initialized = False\<rparr>"]
  by simp

end
